theory Spec2Isabelle
  imports Main "HOL-Library.Word" "HOL-Library.Multiset"
begin

section \<open>kvadmission: the integration layer between KV and admission control\<close>

text \<open>
  A shallow embedding of \<^verbatim>\<open>pkg/kv/kvserver/kvadmission/kvadmission.go\<close>.
  The admission queues, the request type, the settings and the clock live in other
  packages; the file only calls them. Their answers are parameters of the model
  (the record \<open>subsystems\<close>), and every call the file makes on them is written to
  a trace of events, in the order the calls happen.
\<close>

subsection \<open>Accounting value types\<close>

text \<open>
  Modelled from the spec: \<^verbatim>\<open>admission.StoreWorkDoneInfo\<close> is declared in the
  admission package. The file reads and adds its fields \<^verbatim>\<open>WriteBytes\<close> and
  \<^verbatim>\<open>IngestedBytes\<close>, which the spec calls the write-byte count and the
  ingested-byte count; they are 64-bit machine integers like \<^verbatim>\<open>NumEntries\<close>.
\<close>

record StoreWorkDoneInfo =
  WriteBytes :: "64 word"
  IngestedBytes :: "64 word"

text \<open>
  \<^verbatim>\<open>type FollowerStoreWriteBytes struct { NumEntries int64; admission.StoreWorkDoneInfo }\<close>:
  the embedded struct is the parent record.
\<close>

record FollowerStoreWriteBytes = StoreWorkDoneInfo +
  NumEntries :: "64 word"

text \<open>\<^verbatim>\<open>type StoreWriteBytes admission.StoreWorkDoneInfo\<close>\<close>

type_synonym StoreWriteBytes = StoreWorkDoneInfo

text \<open>The zero value \<^verbatim>\<open>admission.StoreWorkDoneInfo{}\<close>.\<close>

definition StoreWorkDoneInfo_zero :: StoreWorkDoneInfo where
  "StoreWorkDoneInfo_zero = \<lparr>WriteBytes = 0, IngestedBytes = 0\<rparr>"

text \<open>
  \<^verbatim>\<open>func (f *FollowerStoreWriteBytes) Merge(from FollowerStoreWriteBytes)\<close>
  updates the receiver in place; the model returns the updated receiver. Go's
  \<^verbatim>\<open>+=\<close> on \<^verbatim>\<open>int64\<close> wraps around, as \<open>+\<close> on \<open>64 word\<close> does.
\<close>

definition Merge :: "FollowerStoreWriteBytes \<Rightarrow> FollowerStoreWriteBytes \<Rightarrow> FollowerStoreWriteBytes" where
  "Merge f from =
     f\<lparr>NumEntries := NumEntries f + NumEntries from,
       WriteBytes := WriteBytes f + WriteBytes from,
       IngestedBytes := IngestedBytes f + IngestedBytes from\<rparr>"

subsection \<open>Requests, work info and handles\<close>

text \<open>
  \<^verbatim>\<open>roachpb.TenantID\<close> is read through \<^verbatim>\<open>ToUint64()\<close>; a store is named by
  \<^verbatim>\<open>int32(ba.Replica.StoreID)\<close>. Go's \<^verbatim>\<open>error\<close> values are opaque here.
\<close>

type_synonym roachpb_TenantID = "64 word"
type_synonym roachpb_StoreID = "32 word"
type_synonym error = string

text \<open>
  The enum \<^verbatim>\<open>roachpb.AdmissionHeader_Source\<close>. The file names two of its values,
  \<^verbatim>\<open>AdmissionHeader_FROM_SQL\<close> and \<^verbatim>\<open>AdmissionHeader_OTHER\<close>; a third stands for
  every value that is neither.
\<close>

datatype AdmissionHeader_Source =
  AdmissionHeader_FROM_SQL | AdmissionHeader_ROOT_KV | AdmissionHeader_OTHER

text \<open>
  What the file reads of a \<^verbatim>\<open>*roachpb.BatchRequest\<close>: the four predicates
  \<^verbatim>\<open>ba.IsAdmin()\<close>, \<^verbatim>\<open>ba.IsWrite()\<close>, \<^verbatim>\<open>ba.IsSingleHeartbeatTxnRequest()\<close>,
  \<^verbatim>\<open>ba.IsSingleExportRequest()\<close>, the admission header and the target store.
  \<open>ah_Priority\<close> holds \<^verbatim>\<open>admissionpb.WorkPriority(ba.AdmissionHeader.Priority)\<close>,
  the only form in which the file reads the header's priority.
\<close>

record BatchRequest =
  IsAdmin :: bool
  IsWrite :: bool
  IsSingleHeartbeatTxnRequest :: bool
  IsSingleExportRequest :: bool
  ah_Source :: AdmissionHeader_Source
  ah_Priority :: int
  ah_CreateTime :: "64 word"
  Replica_StoreID :: roachpb_StoreID

text \<open>\<^verbatim>\<open>admission.WorkInfo\<close>, with the four fields the file sets.\<close>

record WorkInfo =
  TenantID :: roachpb_TenantID
  Priority :: int
  CreateTime :: "64 word"
  BypassAdmission :: bool

text \<open>
  References handed out by the subsystems. A \<^verbatim>\<open>*admission.StoreWorkQueue\<close> and a
  \<^verbatim>\<open>*admission.ElasticCPUWorkHandle\<close> are pointers: \<open>None\<close> is \<^verbatim>\<open>nil\<close>, and the
  number names the object pointed to. An \<^verbatim>\<open>admission.StoreWorkHandle\<close> is a struct
  value; the file reads only its \<^verbatim>\<open>AdmissionEnabled()\<close>, the rest is opaque
  (\<open>swh_token\<close>).
\<close>

type_synonym StoreWorkQueue = nat
type_synonym ElasticCPUWorkHandle = nat

record StoreWorkHandle =
  swh_token :: nat
  AdmissionEnabled :: bool

definition StoreWorkHandle_zero :: StoreWorkHandle where
  "StoreWorkHandle_zero = \<lparr>swh_token = 0, AdmissionEnabled = False\<rparr>"

record Handle =
  tenantID :: roachpb_TenantID
  storeAdmissionQ :: "StoreWorkQueue option"
  storeWorkHandle :: StoreWorkHandle
  ElasticCPUWorkHandle :: "ElasticCPUWorkHandle option"
  callAdmittedWorkDoneOnKVAdmissionQ :: bool

text \<open>The zero value \<^verbatim>\<open>Handle{}\<close>.\<close>

definition Handle_zero :: Handle where
  "Handle_zero =
     \<lparr>tenantID = 0, storeAdmissionQ = None, storeWorkHandle = StoreWorkHandle_zero,
      ElasticCPUWorkHandle = None, callAdmittedWorkDoneOnKVAdmissionQ = False\<rparr>"

subsection \<open>The controller and its collaborators\<close>

text \<open>The cluster settings the request path reads.\<close>

record Settings =
  KVBulkOnlyAdmissionControlEnabled :: bool
  elasticCPUDurationPerExportRequest :: int
  elasticCPUDurationPerRangefeedScanUnit :: int

text \<open>
  \<^verbatim>\<open>controllerImpl\<close>. ``All three should be nil or non-nil'': the file tests only
  \<^verbatim>\<open>n.kvAdmissionQ == nil\<close>, which \<open>kvAdmissionQ_nil\<close> records. \<open>storeGrantCoords\<close>
  is \<^verbatim>\<open>n.storeGrantCoords.TryGetQueueForStore\<close>: the queue of a store, or \<^verbatim>\<open>nil\<close>.
\<close>

record controllerImpl =
  kvAdmissionQ_nil :: bool
  storeGrantCoords :: "roachpb_StoreID \<Rightarrow> StoreWorkQueue option"
  settings :: Settings

text \<open>
  What the other packages answer when the file calls them. \<open>IsSystemTenantID\<close> and
  \<open>NormalPri\<close> are declared in \<^verbatim>\<open>roachpb\<close> and \<^verbatim>\<open>admissionpb\<close>; \<open>Now_UnixNano\<close> is
  the value of \<^verbatim>\<open>timeutil.Now().UnixNano()\<close> read during the call. The three
  \<open>Admit\<close> functions return an error (\<open>Inl\<close>) or their result; the elastic queue's
  result is a pointer and may be \<^verbatim>\<open>nil\<close>. \<open>OverLimit\<close> is the first result of
  \<^verbatim>\<open>(*ElasticCPUWorkHandle).OverLimit()\<close>, which the file also calls on \<^verbatim>\<open>nil\<close>.
\<close>

record subsystems =
  IsSystemTenantID :: "roachpb_TenantID \<Rightarrow> bool"
  NormalPri :: int
  Now_UnixNano :: "64 word"
  StoreWorkQueue_Admit :: "StoreWorkQueue \<Rightarrow> WorkInfo \<Rightarrow> error + StoreWorkHandle"
  ElasticCPUWorkQueue_Admit :: "int \<Rightarrow> WorkInfo \<Rightarrow> error + ElasticCPUWorkHandle option"
  WorkQueue_Admit :: "WorkInfo \<Rightarrow> error + bool"
  StoreWorkQueue_AdmittedWorkDone ::
    "StoreWorkQueue \<Rightarrow> StoreWorkHandle \<Rightarrow> StoreWorkDoneInfo \<Rightarrow> error option"
  OverLimit :: "ElasticCPUWorkHandle option \<Rightarrow> bool"
  CrdbTestBuild :: bool
  every_ShouldLog :: bool

text \<open>
  The calls the file makes on the subsystems, each \<open>Admit\<close> with what it returned.
\<close>

datatype event =
    StoreQ_Admit StoreWorkQueue WorkInfo "error + StoreWorkHandle"
  | StoreQ_AdmittedWorkDone StoreWorkQueue StoreWorkHandle StoreWorkDoneInfo
  | ElasticQ_Admit int WorkInfo "error + ElasticCPUWorkHandle option"
  | ElasticQ_AdmittedWorkDone "ElasticCPUWorkHandle option"
  | KVQ_Admit WorkInfo "error + bool"
  | KVQ_AdmittedWorkDone roachpb_TenantID
  | Log_Fatalf error
  | Log_Errorf error

subsection \<open>AdmitKVWork\<close>

text \<open>
  Lines 179--206: the bypass decision, the create time and the \<^verbatim>\<open>admissionInfo\<close>
  that every queue consulted receives.
  \<^verbatim>\<open>
  bypassAdmission := ba.IsAdmin()
  source := ba.AdmissionHeader.Source
  if !roachpb.IsSystemTenantID(tenantID.ToUint64()) {
      bypassAdmission = false
      source = roachpb.AdmissionHeader_FROM_SQL
  }
  if source == roachpb.AdmissionHeader_OTHER { bypassAdmission = true }
  if admission.KVBulkOnlyAdmissionControlEnabled.Get(&n.settings.SV) {
      if admissionpb.WorkPriority(ba.AdmissionHeader.Priority) >= admissionpb.NormalPri {
          bypassAdmission = true
      }
  }
  createTime := ba.AdmissionHeader.CreateTime
  if !bypassAdmission && createTime == 0 { createTime = timeutil.Now().UnixNano() }
  \<close>
\<close>

definition admissionInfo ::
  "controllerImpl \<Rightarrow> subsystems \<Rightarrow> roachpb_TenantID \<Rightarrow> BatchRequest \<Rightarrow> WorkInfo" where
  "admissionInfo n env tenant ba =
     (let bypassAdmission = IsAdmin ba;
          source = ah_Source ba;
          (bypassAdmission, source) =
            (if \<not> IsSystemTenantID env tenant
             then (False, AdmissionHeader_FROM_SQL) else (bypassAdmission, source));
          bypassAdmission =
            (if source = AdmissionHeader_OTHER then True else bypassAdmission);
          bypassAdmission =
            (if KVBulkOnlyAdmissionControlEnabled (settings n)
             then (if NormalPri env \<le> ah_Priority ba then True else bypassAdmission)
             else bypassAdmission);
          createTime = ah_CreateTime ba;
          createTime =
            (if \<not> bypassAdmission \<and> createTime = 0 then Now_UnixNano env else createTime)
      in \<lparr>TenantID = tenant, Priority = ah_Priority ba,
          CreateTime = createTime, BypassAdmission = bypassAdmission\<rparr>)"

text \<open>
  The two deferred functions of \<^verbatim>\<open>AdmitKVWork\<close>. Each runs when the function
  returns, after the result \<^verbatim>\<open>retErr\<close> is set, and reads the local \<^verbatim>\<open>ah\<close> as it
  is then:
  \<^verbatim>\<open>
  defer func() { if retErr != nil {
      _ = storeAdmissionQ.AdmittedWorkDone(ah.storeWorkHandle, admission.StoreWorkDoneInfo{}) } }()
  defer func() { if retErr != nil {
      n.elasticCPUWorkQueue.AdmittedWorkDone(ah.ElasticCPUWorkHandle) } }()
  \<close>
\<close>

datatype deferred = Defer_store StoreWorkQueue | Defer_elastic

fun run_deferred :: "Handle \<Rightarrow> error option \<Rightarrow> deferred \<Rightarrow> event list" where
  "run_deferred ah retErr (Defer_store storeQ) =
     (if retErr \<noteq> None
      then [StoreQ_AdmittedWorkDone storeQ (storeWorkHandle ah) StoreWorkDoneInfo_zero]
      else [])"
| "run_deferred ah retErr Defer_elastic =
     (if retErr \<noteq> None then [ElasticQ_AdmittedWorkDone (ElasticCPUWorkHandle ah)] else [])"

text \<open>
  A \<^verbatim>\<open>return handle, retErr\<close>: the calls made so far, then the deferred functions,
  the last registered first (\<open>defers\<close> is kept in that order).
\<close>

definition return_with ::
  "Handle \<Rightarrow> deferred list \<Rightarrow> event list \<Rightarrow> Handle \<Rightarrow> error option
     \<Rightarrow> Handle \<times> error option \<times> event list" where
  "return_with ah defers tr handle retErr =
     (handle, retErr, tr @ concat (map (run_deferred ah retErr) defers))"

text \<open>
  Lines 208--234: the store queue. The result is an early return (\<open>Inl\<close>), or the
  state the function goes on with: \<^verbatim>\<open>ah\<close>, \<^verbatim>\<open>admissionEnabled\<close>, the calls made
  and the deferred functions registered.
\<close>

definition admitStore ::
  "controllerImpl \<Rightarrow> subsystems \<Rightarrow> WorkInfo \<Rightarrow> BatchRequest \<Rightarrow> Handle
     \<Rightarrow> (Handle \<times> error option \<times> event list) + (Handle \<times> bool \<times> event list \<times> deferred list)" where
  "admitStore n env info ba ah =
     (if IsWrite ba \<and> \<not> IsSingleHeartbeatTxnRequest ba then
        (case storeGrantCoords n (Replica_StoreID ba) of
           None \<Rightarrow> Inr (ah, True, [], [])
         | Some storeQ \<Rightarrow>
             (case StoreWorkQueue_Admit env storeQ info of
                Inl err \<Rightarrow>
                  Inl (return_with ah [] [StoreQ_Admit storeQ info (Inl err)] Handle_zero (Some err))
              | Inr swh \<Rightarrow>
                  (if AdmissionEnabled swh
                   then Inr (ah\<lparr>storeAdmissionQ := Some storeQ, storeWorkHandle := swh\<rparr>, True,
                             [StoreQ_Admit storeQ info (Inr swh)], [Defer_store storeQ])
                   else Inr (ah, False, [StoreQ_Admit storeQ info (Inr swh)], []))))
      else Inr (ah, True, [], []))"

text \<open>
  \<^verbatim>\<open>AdmitKVWork\<close>: the handle and the error returned, and the calls made on the
  subsystems, in order.
\<close>

definition AdmitKVWork ::
  "controllerImpl \<Rightarrow> subsystems \<Rightarrow> roachpb_TenantID \<Rightarrow> BatchRequest
     \<Rightarrow> Handle \<times> error option \<times> event list" where
  "AdmitKVWork n env tenant ba =
     (let ah = Handle_zero\<lparr>tenantID := tenant\<rparr> in
      if kvAdmissionQ_nil n then (ah, None, [])
      else
        let info = admissionInfo n env tenant ba in
        case admitStore n env info ba ah of
          Inl early \<Rightarrow> early
        | Inr (ah, admissionEnabled, tr, defers) \<Rightarrow>
            if admissionEnabled then
              if IsSingleExportRequest ba then
                (let d = elasticCPUDurationPerExportRequest (settings n) in
                 case ElasticCPUWorkQueue_Admit env d info of
                   Inl err \<Rightarrow>
                     return_with ah defers (tr @ [ElasticQ_Admit d info (Inl err)])
                       Handle_zero (Some err)
                 | Inr elasticWorkHandle \<Rightarrow>
                     (let ah = ah\<lparr>ElasticCPUWorkHandle := elasticWorkHandle\<rparr> in
                      return_with ah (Defer_elastic # defers)
                        (tr @ [ElasticQ_Admit d info (Inr elasticWorkHandle)]) ah None))
              else
                (case WorkQueue_Admit env info of
                   Inl err \<Rightarrow>
                     return_with ah defers (tr @ [KVQ_Admit info (Inl err)])
                       Handle_zero (Some err)
                 | Inr c \<Rightarrow>
                     (let ah = ah\<lparr>callAdmittedWorkDoneOnKVAdmissionQ := c\<rparr> in
                      return_with ah defers (tr @ [KVQ_Admit info (Inr c)]) ah None))
            else return_with ah defers tr ah None)"

text \<open>
  \<^verbatim>\<open>AdmittedKVWorkDone\<close>: the calls it makes. The elastic queue's
  \<^verbatim>\<open>AdmittedWorkDone\<close> is called first, whatever the handle holds. A failing store
  completion is fatal in a test build (\<^verbatim>\<open>log.Fatalf\<close> ends the process) and is
  logged, rate-limited, otherwise.
\<close>

definition AdmittedKVWorkDone ::
  "subsystems \<Rightarrow> Handle \<Rightarrow> StoreWriteBytes option \<Rightarrow> event list" where
  "AdmittedKVWorkDone env ah writeBytes =
     [ElasticQ_AdmittedWorkDone (ElasticCPUWorkHandle ah)] @
     (if callAdmittedWorkDoneOnKVAdmissionQ ah then [KVQ_AdmittedWorkDone (tenantID ah)] else []) @
     (case storeAdmissionQ ah of
        None \<Rightarrow> []
      | Some storeQ \<Rightarrow>
          (let doneInfo = (case writeBytes of None \<Rightarrow> StoreWorkDoneInfo_zero | Some wb \<Rightarrow> wb) in
           [StoreQ_AdmittedWorkDone storeQ (storeWorkHandle ah) doneInfo] @
           (case StoreWorkQueue_AdmittedWorkDone env storeQ (storeWorkHandle ah) doneInfo of
              None \<Rightarrow> []
            | Some err \<Rightarrow>
                (if CrdbTestBuild env then [Log_Fatalf err]
                 else if every_ShouldLog env then [Log_Errorf err] else []))))"

subsection \<open>Tokens read off a trace\<close>

text \<open>
  A token is what a successful \<open>Admit\<close> leaves with the caller to give back: the
  store work handle when the store queue charges the request
  (\<^verbatim>\<open>AdmissionEnabled()\<close>), a non-nil elastic CPU handle, or the obligation to call
  \<^verbatim>\<open>AdmittedWorkDone\<close> on the KV queue for the tenant.
\<close>

datatype token =
    StoreToken StoreWorkQueue StoreWorkHandle
  | ElasticToken ElasticCPUWorkHandle
  | KVToken roachpb_TenantID

fun acquired :: "event \<Rightarrow> token list" where
  "acquired (StoreQ_Admit q info (Inr swh)) = (if AdmissionEnabled swh then [StoreToken q swh] else [])"
| "acquired (ElasticQ_Admit d info (Inr (Some h))) = [ElasticToken h]"
| "acquired (KVQ_Admit info (Inr c)) = (if c then [KVToken (TenantID info)] else [])"
| "acquired _ = []"

fun released :: "event \<Rightarrow> token list" where
  "released (StoreQ_AdmittedWorkDone q swh doneInfo) = [StoreToken q swh]"
| "released (ElasticQ_AdmittedWorkDone (Some h)) = [ElasticToken h]"
| "released (KVQ_AdmittedWorkDone t) = [KVToken t]"
| "released _ = []"

definition tokens_acquired :: "event list \<Rightarrow> token list" where
  "tokens_acquired tr = concat (map acquired tr)"

definition tokens_released :: "event list \<Rightarrow> token list" where
  "tokens_released tr = concat (map released tr)"

text \<open>
  The tokens still held after a run of calls: each \<open>Admit\<close> adds what it handed
  out, each completion call takes one copy of its token away.
\<close>

fun outstanding :: "token list \<Rightarrow> event list \<Rightarrow> token list" where
  "outstanding held [] = held"
| "outstanding held (e # es) = outstanding (foldr remove1 (released e) (held @ acquired e)) es"

text \<open>The completion calls of a trace, with or without a token.\<close>

fun is_completion_call :: "event \<Rightarrow> bool" where
  "is_completion_call (StoreQ_AdmittedWorkDone q swh doneInfo) = True"
| "is_completion_call (ElasticQ_AdmittedWorkDone h) = True"
| "is_completion_call (KVQ_AdmittedWorkDone t) = True"
| "is_completion_call _ = False"

definition completion_calls :: "event list \<Rightarrow> event list" where
  "completion_calls tr = filter is_completion_call tr"

text \<open>
  The completion calls made for a token: those that give a token back. The elastic
  queue's \<^verbatim>\<open>AdmittedWorkDone\<close> on the \<^verbatim>\<open>nil\<close> handle is made for no token and
  gives nothing back.
\<close>

fun is_token_completion :: "event \<Rightarrow> bool" where
  "is_token_completion (StoreQ_AdmittedWorkDone q swh doneInfo) = True"
| "is_token_completion (ElasticQ_AdmittedWorkDone (Some h)) = True"
| "is_token_completion (KVQ_AdmittedWorkDone t) = True"
| "is_token_completion _ = False"

definition token_completion_calls :: "event list \<Rightarrow> event list" where
  "token_completion_calls tr = filter is_token_completion tr"

text \<open>The \<^verbatim>\<open>StoreWorkDoneInfo\<close> of every store completion call of a trace.\<close>

fun store_done_info :: "event \<Rightarrow> StoreWorkDoneInfo list" where
  "store_done_info (StoreQ_AdmittedWorkDone q swh doneInfo) = [doneInfo]"
| "store_done_info _ = []"

definition store_done_infos :: "event list \<Rightarrow> StoreWorkDoneInfo list" where
  "store_done_infos tr = concat (map store_done_info tr)"

text \<open>The \<^verbatim>\<open>WorkInfo\<close> of every \<open>Admit\<close> call of a trace.\<close>

fun admit_info :: "event \<Rightarrow> WorkInfo list" where
  "admit_info (StoreQ_Admit q info r) = [info]"
| "admit_info (ElasticQ_Admit d info r) = [info]"
| "admit_info (KVQ_Admit info r) = [info]"
| "admit_info _ = []"

definition admit_infos :: "event list \<Rightarrow> WorkInfo list" where
  "admit_infos tr = concat (map admit_info tr)"

text \<open>Which queue a trace consulted for the second admission.\<close>

fun is_elastic_admit :: "event \<Rightarrow> bool" where
  "is_elastic_admit (ElasticQ_Admit d info r) = True"
| "is_elastic_admit _ = False"

fun is_kv_admit :: "event \<Rightarrow> bool" where
  "is_kv_admit (KVQ_Admit info r) = True"
| "is_kv_admit _ = False"

subsection \<open>Pacer\<close>

text \<open>
  \<^verbatim>\<open>type Pacer struct { unit; wi; wq; cur }\<close>. \<^verbatim>\<open>wq\<close> points to the controller's
  elastic CPU work queue, the only one there is, and is left out. A \<^verbatim>\<open>*Pacer\<close> is
  a \<open>Pacer option\<close>, \<open>None\<close> for \<^verbatim>\<open>nil\<close>; the methods update the pacer in place,
  the model returns it.
\<close>

record Pacer =
  unit :: int
  wi :: WorkInfo
  cur :: "ElasticCPUWorkHandle option"

text \<open>What the file reads of a \<^verbatim>\<open>*roachpb.RangeFeedRequest\<close>: its admission header.\<close>

record RangeFeedRequest =
  rf_Priority :: int
  rf_CreateTime :: "64 word"

definition AdmitRangefeedRequest ::
  "controllerImpl \<Rightarrow> roachpb_TenantID \<Rightarrow> RangeFeedRequest \<Rightarrow> Pacer option" where
  "AdmitRangefeedRequest n tenant request =
     Some \<lparr>unit = elasticCPUDurationPerRangefeedScanUnit (settings n),
           wi = \<lparr>TenantID = tenant, Priority = rf_Priority request,
                 CreateTime = rf_CreateTime request, BypassAdmission = False\<rparr>,
           cur = None\<rparr>"

text \<open>
  \<^verbatim>\<open>
  func (p *Pacer) Pace(ctx context.Context) error {
      if p == nil { return nil }
      if overLimit, _ := p.cur.OverLimit(); overLimit {
          p.wq.AdmittedWorkDone(p.cur); p.cur = nil
      }
      if p.cur == nil {
          handle, err := p.wq.Admit(ctx, p.unit, p.wi)
          if err != nil { return err }
          p.cur = handle
      }
      return nil
  }
  \<close>
  The result is the pacer afterwards, the error returned and the calls made.
\<close>

definition Pace :: "subsystems \<Rightarrow> Pacer option \<Rightarrow> Pacer option \<times> error option \<times> event list" where
  "Pace env p =
     (case p of
        None \<Rightarrow> (None, None, [])
      | Some p \<Rightarrow>
          (let (p, tr) =
                 (if OverLimit env (cur p)
                  then (p\<lparr>cur := None\<rparr>, [ElasticQ_AdmittedWorkDone (cur p)])
                  else (p, []))
           in if cur p = None then
                (case ElasticCPUWorkQueue_Admit env (unit p) (wi p) of
                   Inl err \<Rightarrow> (Some p, Some err, tr @ [ElasticQ_Admit (unit p) (wi p) (Inl err)])
                 | Inr handle \<Rightarrow>
                     (Some (p\<lparr>cur := handle\<rparr>), None,
                      tr @ [ElasticQ_Admit (unit p) (wi p) (Inr handle)]))
              else (Some p, None, tr)))"

text \<open>
  \<^verbatim>\<open>
  func (p *Pacer) Close() {
      if p == nil || p.cur == nil { return }
      p.wq.AdmittedWorkDone(p.cur)
      p.cur = nil
  }
  \<close>
  \<^verbatim>\<open>Close\<close> has no result: the model returns the pacer afterwards and the calls
  made.
\<close>

definition Close :: "Pacer option \<Rightarrow> Pacer option \<times> event list" where
  "Close p =
     (case p of
        None \<Rightarrow> (None, [])
      | Some p \<Rightarrow>
          (if cur p = None then (Some p, [])
           else (Some (p\<lparr>cur := None\<rparr>), [ElasticQ_AdmittedWorkDone (cur p)])))"

subsection \<open>The weight redistribution loop\<close>

text \<open>
  A \<^verbatim>\<open>map[uint64]uint32\<close> that may be \<^verbatim>\<open>nil\<close>, and the two structs of weights.
  The embedded \<^verbatim>\<open>roachpb.StoreID\<close> of \<^verbatim>\<open>TenantWeightsForStore\<close> is the field
  \<open>StoreID\<close>.
\<close>

type_synonym weights = "(64 word \<rightharpoonup> 32 word) option"

record TenantWeightsForStore =
  StoreID :: roachpb_StoreID
  Weights :: weights

record TenantWeights =
  Node :: weights
  Stores :: "TenantWeightsForStore list"

text \<open>
  What the goroutine of \<^verbatim>\<open>SetTenantWeightProvider\<close> receives in its
  \<^verbatim>\<open>select\<close>: a tick of the ticker, or the stopper's quiesce signal. A tick comes
  with what the outside world holds at that moment: the two settings, and the
  weights the provider returns if it is asked.
\<close>

record tick =
  KVTenantWeightsEnabled :: bool
  KVStoresTenantWeightsEnabled :: bool
  GetTenantWeights :: TenantWeights

datatype signal = Ticker_C tick | ShouldQuiesce

datatype weight_event =
    Provider_GetTenantWeights
  | KVQ_SetTenantWeights weights
  | ElasticQ_SetTenantWeights weights
  | StoreQ_SetTenantWeights StoreWorkQueue weights
  | Ticker_Stop

text \<open>\<^verbatim>\<open>for _, storeWeights := range weights.Stores { ... }\<close>\<close>

fun setStoreWeights ::
  "controllerImpl \<Rightarrow> bool \<Rightarrow> TenantWeightsForStore list \<Rightarrow> weight_event list" where
  "setStoreWeights n kvStoresDisabled [] = []"
| "setStoreWeights n kvStoresDisabled (storeWeights # rest) =
     (case storeGrantCoords n (StoreID storeWeights) of
        None \<Rightarrow> []
      | Some q \<Rightarrow>
          [StoreQ_SetTenantWeights q
             (if kvStoresDisabled then None else Weights storeWeights)])
     @ setStoreWeights n kvStoresDisabled rest"

text \<open>
  The body of \<^verbatim>\<open>case <-ticker.C\<close>: from the loop's \<^verbatim>\<open>allWeightsDisabled\<close> to its
  value after the tick, with the calls made.
\<close>

definition tickBody :: "controllerImpl \<Rightarrow> bool \<Rightarrow> tick \<Rightarrow> bool \<times> weight_event list" where
  "tickBody n allWeightsDisabled t =
     (let kvDisabled = \<not> KVTenantWeightsEnabled t;
          kvStoresDisabled = \<not> KVStoresTenantWeightsEnabled t
      in if allWeightsDisabled \<and> kvDisabled \<and> kvStoresDisabled
         then (allWeightsDisabled, [])
         else
           (let weights = GetTenantWeights t;
                weights = (if kvDisabled then weights\<lparr>Node := None\<rparr> else weights)
            in (kvDisabled \<and> kvStoresDisabled,
                [Provider_GetTenantWeights,
                 KVQ_SetTenantWeights (Node weights),
                 ElasticQ_SetTenantWeights (Node weights)]
                @ setStoreWeights n kvStoresDisabled (Stores weights))))"

text \<open>
  The \<^verbatim>\<open>for { select { ... } }\<close> loop over the signals received so far. When the
  signals run out the goroutine is waiting in \<^verbatim>\<open>select\<close>; on the quiesce signal it
  stops the ticker and returns. The result is \<^verbatim>\<open>allWeightsDisabled\<close> at that point
  and the calls made.
\<close>

fun weightsLoop :: "controllerImpl \<Rightarrow> bool \<Rightarrow> signal list \<Rightarrow> bool \<times> weight_event list" where
  "weightsLoop n allWeightsDisabled [] = (allWeightsDisabled, [])"
| "weightsLoop n allWeightsDisabled (ShouldQuiesce # rest) = (allWeightsDisabled, [Ticker_Stop])"
| "weightsLoop n allWeightsDisabled (Ticker_C t # rest) =
     (let (allWeightsDisabled, tr) = tickBody n allWeightsDisabled t;
          (allWeightsDisabled, tr') = weightsLoop n allWeightsDisabled rest
      in (allWeightsDisabled, tr @ tr'))"

text \<open>\<^verbatim>\<open>SetTenantWeightProvider\<close> starts the loop with \<^verbatim>\<open>allWeightsDisabled := false\<close>.\<close>

definition SetTenantWeightProvider :: "controllerImpl \<Rightarrow> signal list \<Rightarrow> weight_event list" where
  "SetTenantWeightProvider n signals = snd (weightsLoop n False signals)"

text \<open>The number of times a trace polls the provider.\<close>

definition provider_calls :: "weight_event list \<Rightarrow> nat" where
  "provider_calls tr = count_list tr Provider_GetTenantWeights"

text \<open>A tick at which both weighting settings are off.\<close>

definition both_disabled :: "tick \<Rightarrow> bool" where
  "both_disabled t = (\<not> KVTenantWeightsEnabled t \<and> \<not> KVStoresTenantWeightsEnabled t)"

subsection \<open>Concrete inputs\<close>

text \<open>
  A controller with its subsystems present, a queue (number 7) for store 1 only,
  and the bulk-only setting off; and subsystems that admit everything: tenant 1 is
  the system tenant, the store queue charges, the KV queue asks for a completion
  call.
\<close>

definition ex_controller :: controllerImpl where
  "ex_controller =
     \<lparr>kvAdmissionQ_nil = False,
      storeGrantCoords = (\<lambda>s. if s = 1 then Some 7 else None),
      settings = \<lparr>KVBulkOnlyAdmissionControlEnabled = False,
                  elasticCPUDurationPerExportRequest = 100,
                  elasticCPUDurationPerRangefeedScanUnit = 100\<rparr>\<rparr>"

definition ex_store_handle :: StoreWorkHandle where
  "ex_store_handle = \<lparr>swh_token = 42, AdmissionEnabled = True\<rparr>"

definition ex_subsystems :: subsystems where
  "ex_subsystems =
     \<lparr>IsSystemTenantID = (\<lambda>t. t = 1),
      NormalPri = 0,
      Now_UnixNano = 1000,
      StoreWorkQueue_Admit = (\<lambda>q info. Inr ex_store_handle),
      ElasticCPUWorkQueue_Admit = (\<lambda>d info. Inr (Some 5)),
      WorkQueue_Admit = (\<lambda>info. Inr True),
      StoreWorkQueue_AdmittedWorkDone = (\<lambda>q swh doneInfo. None),
      OverLimit = (\<lambda>h. False),
      CrdbTestBuild = False,
      every_ShouldLog = False\<rparr>"

text \<open>The same subsystems with a KV queue that rejects, or that admits without obligation.\<close>

definition ex_subsystems_kv_fails :: subsystems where
  "ex_subsystems_kv_fails = ex_subsystems\<lparr>WorkQueue_Admit := (\<lambda>info. Inl ''context canceled'')\<rparr>"

definition ex_subsystems_kv_disabled :: subsystems where
  "ex_subsystems_kv_disabled = ex_subsystems\<lparr>WorkQueue_Admit := (\<lambda>info. Inr False)\<rparr>"

text \<open>
  Requests: a write to store 1 at low priority with no create time; the same write
  declaring the source \<^verbatim>\<open>OTHER\<close>; a read; a single heartbeat.
\<close>

definition ex_write :: BatchRequest where
  "ex_write =
     \<lparr>IsAdmin = False, IsWrite = True, IsSingleHeartbeatTxnRequest = False,
      IsSingleExportRequest = False, ah_Source = AdmissionHeader_ROOT_KV,
      ah_Priority = - 30, ah_CreateTime = 0, Replica_StoreID = 1\<rparr>"

definition ex_write_other :: BatchRequest where
  "ex_write_other = ex_write\<lparr>ah_Source := AdmissionHeader_OTHER\<rparr>"

definition ex_read :: BatchRequest where
  "ex_read = ex_write\<lparr>IsWrite := False\<rparr>"

definition ex_heartbeat :: BatchRequest where
  "ex_heartbeat = ex_write\<lparr>IsSingleHeartbeatTxnRequest := True\<rparr>"

text \<open>Ticks with both weighting settings off, and with the node-level one on.\<close>

definition ex_weights :: TenantWeights where
  "ex_weights = \<lparr>Node = Some [1 \<mapsto> 10], Stores = [\<lparr>StoreID = 1, Weights = Some [1 \<mapsto> 3]\<rparr>]\<rparr>"

definition ex_tick_off :: tick where
  "ex_tick_off =
     \<lparr>KVTenantWeightsEnabled = False, KVStoresTenantWeightsEnabled = False,
      GetTenantWeights = ex_weights\<rparr>"

definition ex_tick_on :: tick where
  "ex_tick_on = ex_tick_off\<lparr>KVTenantWeightsEnabled := True\<rparr>"

definition ex_pacer :: Pacer where
  "ex_pacer =
     \<lparr>unit = 100,
      wi = \<lparr>TenantID = 1, Priority = - 30, CreateTime = 1000, BypassAdmission = False\<rparr>,
      cur = Some 5\<rparr>"

section \<open>Properties\<close>

subsection \<open>Merge\<close>

lemma Merge_fields:
  "NumEntries (Merge a b) = NumEntries a + NumEntries b"
  "WriteBytes (Merge a b) = WriteBytes a + WriteBytes b"
  "IngestedBytes (Merge a b) = IngestedBytes a + IngestedBytes b"
  by (simp_all add: Merge_def)

lemma Merge_assoc: "Merge (Merge a b) c = Merge a (Merge b c)"
  by (simp add: Merge_def add.assoc)

lemma Merge_commute: "Merge a b = Merge b a"
  by (cases a, cases b) (simp add: Merge_def add.commute)

text \<open>
  C7. \<open>Merge\<close> is field-wise addition: each of the three counters of the result is
  the sum of the two arguments' counters. It is associative and commutative: merging
  \<open>a\<close>, \<open>b\<close>, \<open>c\<close> as \<open>Merge (Merge a b) c\<close> or as \<open>Merge a (Merge b c)\<close>
  gives the same entry count, write bytes and ingested bytes, and \<open>Merge a b\<close> has
  the same three counters as \<open>Merge b a\<close>.
\<close>

theorem Merge_assoc_comm:
  "NumEntries (Merge a b) = NumEntries a + NumEntries b
   \<and> WriteBytes (Merge a b) = WriteBytes a + WriteBytes b
   \<and> IngestedBytes (Merge a b) = IngestedBytes a + IngestedBytes b
   \<and> Merge (Merge a b) c = Merge a (Merge b c)
   \<and> NumEntries (Merge (Merge a b) c) = NumEntries (Merge a (Merge b c))
   \<and> WriteBytes (Merge (Merge a b) c) = WriteBytes (Merge a (Merge b c))
   \<and> IngestedBytes (Merge (Merge a b) c) = IngestedBytes (Merge a (Merge b c))
   \<and> Merge a b = Merge b a
   \<and> NumEntries (Merge a b) = NumEntries (Merge b a)
   \<and> WriteBytes (Merge a b) = WriteBytes (Merge b a)
   \<and> IngestedBytes (Merge a b) = IngestedBytes (Merge b a)"
proof -
  have "Merge (Merge a b) c = Merge a (Merge b c)" by (rule Merge_assoc)
  moreover have "Merge a b = Merge b a" by (rule Merge_commute)
  ultimately show ?thesis by (simp add: Merge_fields)
qed

subsection \<open>The outcomes of the store queue step\<close>

lemmas trace_defs = tokens_released_def tokens_acquired_def store_done_infos_def
  completion_calls_def admit_infos_def

lemmas ex_defs = ex_controller_def ex_subsystems_def ex_subsystems_kv_fails_def
  ex_subsystems_kv_disabled_def ex_store_handle_def ex_write_def ex_write_other_def
  ex_read_def ex_heartbeat_def

lemmas AdmitKVWork_defs = AdmitKVWork_def admitStore_def return_with_def admissionInfo_def
  Handle_zero_def StoreWorkHandle_zero_def StoreWorkDoneInfo_zero_def Let_def

lemma admissionInfo_TenantID [simp]: "TenantID (admissionInfo n env tenant ba) = tenant"
  by (simp add: admissionInfo_def Let_def)

lemma admitStore_Inl:
  "admitStore n env info ba ah = Inl (h, r, tr) \<Longrightarrow>
     \<exists>q err. h = Handle_zero \<and> r = Some err \<and> tr = [StoreQ_Admit q info (Inl err)]"
  by (auto simp: admitStore_def return_with_def split: if_splits option.splits sum.splits)

lemma admitStore_Inr:
  "admitStore n env info ba ah = Inr (ah', en, tr, defers) \<Longrightarrow>
     (tr = [] \<and> defers = [] \<and> ah' = ah \<and> en)
   \<or> (\<exists>q swh. tr = [StoreQ_Admit q info (Inr swh)] \<and> \<not> AdmissionEnabled swh
         \<and> defers = [] \<and> ah' = ah \<and> \<not> en)
   \<or> (\<exists>q swh. tr = [StoreQ_Admit q info (Inr swh)] \<and> AdmissionEnabled swh
         \<and> defers = [Defer_store q]
         \<and> ah' = ah\<lparr>storeAdmissionQ := Some q, storeWorkHandle := swh\<rparr> \<and> en)"
  by (auto simp: admitStore_def return_with_def split: if_splits option.splits sum.splits)

lemma admitStore_no_store:
  "kvAdmissionQ_nil n \<or> storeGrantCoords n (Replica_StoreID ba) = None \<or> \<not> IsWrite ba
     \<or> IsSingleHeartbeatTxnRequest ba \<Longrightarrow> \<not> kvAdmissionQ_nil n \<Longrightarrow>
   admitStore n env info ba ah = Inr (ah, True, [], [])"
  by (auto simp: admitStore_def)

subsection \<open>Rollback on a failed admission\<close>

text \<open>
  The scenario of the rollback: the store queue admits a write and charges it, then
  the second queue (elastic CPU for a single export, the KV queue otherwise)
  returns an error. The trace is the store admission, the failed admission, and the
  store completion with the zero \<^verbatim>\<open>StoreWorkDoneInfo\<close>; the caller gets \<^verbatim>\<open>Handle{}\<close>
  and the error.
\<close>

lemma AdmitKVWork_store_then_failure:
  assumes "\<not> kvAdmissionQ_nil n" "IsWrite ba" "\<not> IsSingleHeartbeatTxnRequest ba"
    and "storeGrantCoords n (Replica_StoreID ba) = Some q"
    and "StoreWorkQueue_Admit env q (admissionInfo n env tenant ba) = Inr swh"
    and "AdmissionEnabled swh"
    and "if IsSingleExportRequest ba
         then ElasticCPUWorkQueue_Admit env (elasticCPUDurationPerExportRequest (settings n))
                (admissionInfo n env tenant ba) = Inl err
         else WorkQueue_Admit env (admissionInfo n env tenant ba) = Inl err"
  shows "\<exists>failed. AdmitKVWork n env tenant ba =
          (Handle_zero, Some err,
           [StoreQ_Admit q (admissionInfo n env tenant ba) (Inr swh), failed,
            StoreQ_AdmittedWorkDone q swh StoreWorkDoneInfo_zero])"
  using assms
  by (auto simp: AdmitKVWork_def admitStore_def return_with_def Let_def split: if_splits)

text \<open>
  C1. Whenever \<open>AdmitKVWork\<close> returns an error, the handle it returns is the empty
  \<^verbatim>\<open>Handle{}\<close> and no token is left unreleased: the tokens released by the calls of
  the trace are exactly the tokens acquired by them, nothing is outstanding at the
  end, a release happens only as the last call (after the failed admission, before
  the return), and every store completion carries the zero \<^verbatim>\<open>StoreWorkDoneInfo\<close>.
\<close>

theorem AdmitKVWork_error_rollback:
  assumes "AdmitKVWork n env tenant ba = (h, Some err, tr)"
  shows "h = Handle_zero \<and> outstanding [] tr = [] \<and> tokens_released tr = tokens_acquired tr
     \<and> tokens_released (butlast tr) = []
     \<and> (\<forall>i \<in> set (store_done_infos tr). i = StoreWorkDoneInfo_zero)"
  using assms
  apply (simp add: AdmitKVWork_def Let_def split: if_splits sum.splits prod.splits)
  apply (auto dest!: admitStore_Inl admitStore_Inr simp: return_with_def trace_defs
      split: if_splits sum.splits)
  done

text \<open>
  A write to store 1 that the store queue admits and charges and the KV queue then
  rejects: the store token is acquired and given back with zero bytes.
\<close>

lemma ex_write_kv_fails:
  "AdmitKVWork ex_controller ex_subsystems_kv_fails 1 ex_write =
     (Handle_zero, Some ''context canceled'',
      [StoreQ_Admit 7
         \<lparr>TenantID = 1, Priority = - 30, CreateTime = 1000, BypassAdmission = False\<rparr>
         (Inr ex_store_handle),
       KVQ_Admit
         \<lparr>TenantID = 1, Priority = - 30, CreateTime = 1000, BypassAdmission = False\<rparr>
         (Inl ''context canceled''),
       StoreQ_AdmittedWorkDone 7 ex_store_handle StoreWorkDoneInfo_zero])"
  by (simp add: AdmitKVWork_defs ex_defs)

theorem AdmitKVWork_error_rollback_witness:
  "fst (AdmitKVWork ex_controller ex_subsystems_kv_fails 1 ex_write) = Handle_zero
   \<and> fst (snd (AdmitKVWork ex_controller ex_subsystems_kv_fails 1 ex_write))
       = Some ''context canceled''
   \<and> tokens_acquired (snd (snd (AdmitKVWork ex_controller ex_subsystems_kv_fails 1 ex_write)))
       = [StoreToken 7 ex_store_handle]
   \<and> tokens_released (snd (snd (AdmitKVWork ex_controller ex_subsystems_kv_fails 1 ex_write)))
       = [StoreToken 7 ex_store_handle]
   \<and> outstanding [] (snd (snd (AdmitKVWork ex_controller ex_subsystems_kv_fails 1 ex_write)))
       = []
   \<and> store_done_infos (snd (snd (AdmitKVWork ex_controller ex_subsystems_kv_fails 1 ex_write)))
       = [StoreWorkDoneInfo_zero]"
proof -
  note run = ex_write_kv_fails
  have acq: "tokens_acquired (snd (snd (AdmitKVWork ex_controller ex_subsystems_kv_fails 1 ex_write)))
      = [StoreToken 7 ex_store_handle]"
    by (simp add: run tokens_acquired_def ex_store_handle_def)
  have infos: "store_done_infos (snd (snd (AdmitKVWork ex_controller ex_subsystems_kv_fails 1 ex_write)))
      = [StoreWorkDoneInfo_zero]"
    by (simp add: run store_done_infos_def)
  from AdmitKVWork_error_rollback [OF run] run acq infos show ?thesis by simp
qed

subsection \<open>Completion of a successful admission\<close>

text \<open>
  After a successful \<open>AdmitKVWork\<close> the handle records exactly the tokens the trace
  acquired: the store token, then the elastic CPU token or the KV queue's
  obligation, never both. The success path itself makes no completion call.
\<close>

lemma AdmitKVWork_success_tokens:
  assumes "AdmitKVWork n env tenant ba = (h, None, tr)"
  shows "tenantID h = tenant \<and> completion_calls tr = []
     \<and> \<not> (ElasticCPUWorkHandle h \<noteq> None \<and> callAdmittedWorkDoneOnKVAdmissionQ h)
     \<and> tokens_acquired tr =
         (case storeAdmissionQ h of None \<Rightarrow> [] | Some q \<Rightarrow> [StoreToken q (storeWorkHandle h)])
         @ (case ElasticCPUWorkHandle h of None \<Rightarrow> [] | Some e \<Rightarrow> [ElasticToken e])
         @ (if callAdmittedWorkDoneOnKVAdmissionQ h then [KVToken tenant] else [])"
  using assms
  apply (simp add: AdmitKVWork_def Let_def split: if_splits sum.splits prod.splits)
   apply (simp add: Handle_zero_def trace_defs)
  apply (auto dest!: admitStore_Inl admitStore_Inr
      simp: return_with_def trace_defs Handle_zero_def
      split: if_splits sum.splits option.splits)
  done

lemma AdmittedKVWorkDone_tokens:
  "tokens_released (AdmittedKVWorkDone env h writeBytes) =
     (case ElasticCPUWorkHandle h of None \<Rightarrow> [] | Some e \<Rightarrow> [ElasticToken e])
     @ (if callAdmittedWorkDoneOnKVAdmissionQ h then [KVToken (tenantID h)] else [])
     @ (case storeAdmissionQ h of None \<Rightarrow> [] | Some q \<Rightarrow> [StoreToken q (storeWorkHandle h)])"
  by (auto simp: AdmittedKVWorkDone_def tokens_released_def Let_def split: option.splits)

lemma AdmittedKVWorkDone_calls:
  "length (completion_calls (AdmittedKVWorkDone env h writeBytes)) =
     1 + (if callAdmittedWorkDoneOnKVAdmissionQ h then 1 else 0)
       + (case storeAdmissionQ h of None \<Rightarrow> 0 | Some q \<Rightarrow> 1)"
  by (auto simp: AdmittedKVWorkDone_def completion_calls_def Let_def split: option.splits)

text \<open>
  Two successful admissions: a write that the store queue charges and the KV queue
  admits with an obligation, and a read that the KV queue admits without
  obligation.
\<close>

lemma ex_write_admitted:
  "AdmitKVWork ex_controller ex_subsystems 1 ex_write =
     (\<lparr>tenantID = 1, storeAdmissionQ = Some 7, storeWorkHandle = ex_store_handle,
       ElasticCPUWorkHandle = None, callAdmittedWorkDoneOnKVAdmissionQ = True\<rparr>,
      None,
      [StoreQ_Admit 7
         \<lparr>TenantID = 1, Priority = - 30, CreateTime = 1000, BypassAdmission = False\<rparr>
         (Inr ex_store_handle),
       KVQ_Admit
         \<lparr>TenantID = 1, Priority = - 30, CreateTime = 1000, BypassAdmission = False\<rparr>
         (Inr True)])"
  by (simp add: AdmitKVWork_defs ex_defs)

lemma ex_read_admitted:
  "AdmitKVWork ex_controller ex_subsystems_kv_disabled 1 ex_read =
     (\<lparr>tenantID = 1, storeAdmissionQ = None, storeWorkHandle = StoreWorkHandle_zero,
       ElasticCPUWorkHandle = None, callAdmittedWorkDoneOnKVAdmissionQ = False\<rparr>,
      None,
      [KVQ_Admit
         \<lparr>TenantID = 1, Priority = - 30, CreateTime = 1000, BypassAdmission = False\<rparr>
         (Inr False)])"
  by (simp add: AdmitKVWork_defs ex_defs)

lemma AdmittedKVWorkDone_token_calls:
  "length (token_completion_calls (AdmittedKVWorkDone env h writeBytes)) =
     (case ElasticCPUWorkHandle h of None \<Rightarrow> 0 | Some e \<Rightarrow> 1)
     + (if callAdmittedWorkDoneOnKVAdmissionQ h then 1 else 0)
     + (case storeAdmissionQ h of None \<Rightarrow> 0 | Some q \<Rightarrow> 1)"
  by (auto simp: AdmittedKVWorkDone_def token_completion_calls_def Let_def split: option.splits)

text \<open>
  C2. After a successful \<open>AdmitKVWork\<close> that acquired \<open>k\<close> tokens, \<open>k\<close> is at most
  two, the success path has made no completion call, and one \<open>AdmittedKVWorkDone\<close>
  on the returned handle makes exactly \<open>k\<close> completion calls for a token: it
  releases exactly the acquired tokens, each once and none twice, and none that was
  not acquired. The only other call it makes on a completion method is the elastic
  queue's \<^verbatim>\<open>AdmittedWorkDone\<close> on the \<^verbatim>\<open>nil\<close> handle, made when no elastic CPU token
  is held; it is made for no token.
\<close>

theorem AdmittedKVWorkDone_releases_acquired:
  assumes "AdmitKVWork n env tenant ba = (h, None, tr)"
  shows "length (tokens_acquired tr) \<le> 2
     \<and> completion_calls tr = []
     \<and> length (token_completion_calls (AdmittedKVWorkDone env' h writeBytes))
         = length (tokens_acquired tr)
     \<and> mset (tokens_released (AdmittedKVWorkDone env' h writeBytes)) = mset (tokens_acquired tr)
     \<and> distinct (tokens_released (AdmittedKVWorkDone env' h writeBytes))
     \<and> length (completion_calls (AdmittedKVWorkDone env' h writeBytes)) =
         length (tokens_acquired tr) + (if ElasticCPUWorkHandle h = None then 1 else 0)"
proof -
  note s = AdmitKVWork_success_tokens [OF assms]
  from s have t: "tenantID h = tenant" and c: "completion_calls tr = []"
    and x: "\<not> (ElasticCPUWorkHandle h \<noteq> None \<and> callAdmittedWorkDoneOnKVAdmissionQ h)"
    and a: "tokens_acquired tr =
         (case storeAdmissionQ h of None \<Rightarrow> [] | Some q \<Rightarrow> [StoreToken q (storeWorkHandle h)])
         @ (case ElasticCPUWorkHandle h of None \<Rightarrow> [] | Some e \<Rightarrow> [ElasticToken e])
         @ (if callAdmittedWorkDoneOnKVAdmissionQ h then [KVToken tenant] else [])"
    by simp_all
  have 1: "mset (tokens_released (AdmittedKVWorkDone env' h writeBytes)) = mset (tokens_acquired tr)"
    by (simp add: AdmittedKVWorkDone_tokens a t split: option.splits)
  have 2: "distinct (tokens_released (AdmittedKVWorkDone env' h writeBytes))"
    by (simp add: AdmittedKVWorkDone_tokens split: option.splits)
  have 3: "length (tokens_acquired tr) \<le> 2"
    using x by (auto simp: a split: option.splits)
  have 4: "length (completion_calls (AdmittedKVWorkDone env' h writeBytes)) =
         length (tokens_acquired tr) + (if ElasticCPUWorkHandle h = None then 1 else 0)"
    by (simp add: AdmittedKVWorkDone_calls a split: option.splits)
  have 5: "length (token_completion_calls (AdmittedKVWorkDone env' h writeBytes))
         = length (tokens_acquired tr)"
    by (simp add: AdmittedKVWorkDone_token_calls a split: option.splits)
  from 1 2 c 3 4 5 show ?thesis by simp
qed

text \<open>
  The write holds two tokens and \<open>AdmittedKVWorkDone\<close> makes two completion calls
  for a token, the KV queue's and the store queue's; the read holds none and
  \<open>AdmittedKVWorkDone\<close> makes none.
\<close>

theorem AdmittedKVWorkDone_releases_acquired_witness:
  "fst (snd (AdmitKVWork ex_controller ex_subsystems 1 ex_write)) = None
   \<and> tokens_acquired (snd (snd (AdmitKVWork ex_controller ex_subsystems 1 ex_write)))
       = [StoreToken 7 ex_store_handle, KVToken 1]
   \<and> token_completion_calls
        (AdmittedKVWorkDone ex_subsystems
           (fst (AdmitKVWork ex_controller ex_subsystems 1 ex_write)) None)
       = [KVQ_AdmittedWorkDone 1,
          StoreQ_AdmittedWorkDone 7 ex_store_handle StoreWorkDoneInfo_zero]
   \<and> tokens_released
        (AdmittedKVWorkDone ex_subsystems
           (fst (AdmitKVWork ex_controller ex_subsystems 1 ex_write)) None)
       = [KVToken 1, StoreToken 7 ex_store_handle]
   \<and> fst (snd (AdmitKVWork ex_controller ex_subsystems_kv_disabled 1 ex_read)) = None
   \<and> tokens_acquired (snd (snd (AdmitKVWork ex_controller ex_subsystems_kv_disabled 1 ex_read)))
       = []
   \<and> token_completion_calls
        (AdmittedKVWorkDone ex_subsystems_kv_disabled
           (fst (AdmitKVWork ex_controller ex_subsystems_kv_disabled 1 ex_read)) None)
       = []"
proof -
  have w: "token_completion_calls
        (AdmittedKVWorkDone ex_subsystems
           (fst (AdmitKVWork ex_controller ex_subsystems 1 ex_write)) None)
       = [KVQ_AdmittedWorkDone 1,
          StoreQ_AdmittedWorkDone 7 ex_store_handle StoreWorkDoneInfo_zero]"
    and w': "tokens_released
        (AdmittedKVWorkDone ex_subsystems
           (fst (AdmitKVWork ex_controller ex_subsystems 1 ex_write)) None)
       = [KVToken 1, StoreToken 7 ex_store_handle]"
    and wa: "tokens_acquired (snd (snd (AdmitKVWork ex_controller ex_subsystems 1 ex_write)))
       = [StoreToken 7 ex_store_handle, KVToken 1]"
     apply (simp_all only: ex_write_admitted fst_conv snd_conv)
     apply (simp_all add: trace_defs token_completion_calls_def AdmittedKVWorkDone_def
        ex_subsystems_def ex_store_handle_def StoreWorkDoneInfo_zero_def)
    done
  have ra: "tokens_acquired
        (snd (snd (AdmitKVWork ex_controller ex_subsystems_kv_disabled 1 ex_read))) = []"
    by (simp add: ex_read_admitted tokens_acquired_def)
  from AdmittedKVWorkDone_releases_acquired [OF ex_write_admitted, of ex_subsystems None]
    AdmittedKVWorkDone_releases_acquired [OF ex_read_admitted, of ex_subsystems_kv_disabled None]
    w w' wa ra
  show ?thesis by (simp add: ex_write_admitted ex_read_admitted)
qed

subsection \<open>The bypass decision and the create time\<close>

text \<open>
  C3, as stated, fails at rule (3): a request of a tenant other than the system
  tenant that declares the source \<^verbatim>\<open>OTHER\<close> is not bypassed. Rule (2) has replaced
  the source by \<^verbatim>\<open>FROM_SQL\<close> before the source is compared with \<^verbatim>\<open>OTHER\<close>.
\<close>

theorem declared_other_counterexample:
  "\<not> IsSystemTenantID ex_subsystems 5
   \<and> ah_Source ex_write_other = AdmissionHeader_OTHER
   \<and> BypassAdmission (admissionInfo ex_controller ex_subsystems 5 ex_write_other) = False"
  by (simp add: admissionInfo_def Let_def ex_defs)

text \<open>
  C3, amended. The bypass decision is taken in this precedence, a later rule
  overriding the earlier ones: (1) bypass is \<^verbatim>\<open>ba.IsAdmin()\<close>; (2) for a tenant
  other than the system tenant, bypass is false and the source becomes
  \<^verbatim>\<open>FROM_SQL\<close>; (3) if the source after rule (2) is \<^verbatim>\<open>OTHER\<close>, which needs the
  system tenant and a declared source \<^verbatim>\<open>OTHER\<close>, bypass is true; (4) if the
  bulk-only setting is on and the priority is at least \<^verbatim>\<open>NormalPri\<close>, bypass is
  true. The \<^verbatim>\<open>admissionInfo\<close> carries the tenant, the priority, the final bypass
  and the create time, which is the clock's reading when the request is not
  bypassed and its create time is zero, and the request's create time otherwise.
\<close>

theorem bypass_precedence:
  "BypassAdmission (admissionInfo n env tenant ba) =
     (if KVBulkOnlyAdmissionControlEnabled (settings n) \<and> NormalPri env \<le> ah_Priority ba
      then True
      else if \<not> IsSystemTenantID env tenant then False
      else if ah_Source ba = AdmissionHeader_OTHER then True
      else IsAdmin ba)
   \<and> TenantID (admissionInfo n env tenant ba) = tenant
   \<and> Priority (admissionInfo n env tenant ba) = ah_Priority ba
   \<and> CreateTime (admissionInfo n env tenant ba) =
       (if \<not> BypassAdmission (admissionInfo n env tenant ba) \<and> ah_CreateTime ba = 0
        then Now_UnixNano env else ah_CreateTime ba)"
  by (simp add: admissionInfo_def Let_def)

text \<open>Every \<open>Admit\<close> call of \<open>AdmitKVWork\<close> receives that \<^verbatim>\<open>admissionInfo\<close>.\<close>

lemma admit_infos_AdmitKVWork:
  "AdmitKVWork n env tenant ba = (h, r, tr) \<Longrightarrow> info \<in> set (admit_infos tr) \<Longrightarrow>
     info = admissionInfo n env tenant ba"
  apply (simp add: AdmitKVWork_def Let_def split: if_splits sum.splits prod.splits)
   apply (auto dest!: admitStore_Inl admitStore_Inr simp: return_with_def trace_defs
      split: if_splits sum.splits)
  done

text \<open>
  With its subsystems present, \<open>AdmitKVWork\<close> consults at least one queue: the store
  queue, or else the elastic CPU queue or the KV queue.
\<close>

lemma admit_infos_nonempty:
  "\<not> kvAdmissionQ_nil n \<Longrightarrow> AdmitKVWork n env tenant ba = (h, r, tr) \<Longrightarrow> admit_infos tr \<noteq> []"
  apply (simp add: AdmitKVWork_def Let_def split: if_splits sum.splits prod.splits)
   apply (auto dest!: admitStore_Inl admitStore_Inr simp: return_with_def trace_defs
      split: if_splits sum.splits)
  done

text \<open>
  C5. Let \<open>AdmitKVWork\<close> process a request whose create time is zero, with the
  subsystems present. It consults at least one queue, and the \<^verbatim>\<open>WorkInfo\<close> every
  queue consulted receives is the \<^verbatim>\<open>admissionInfo\<close>, whose create time is the
  reading of \<^verbatim>\<open>timeutil.Now().UnixNano()\<close> taken during the call when the request
  is not bypassed, and zero when it is bypassed. The reading is taken after the
  call has started: for every instant \<open>t0\<close> not later than the reading, as the
  instant of the call is on a clock that does not run backwards, the create time
  assigned is not earlier than \<open>t0\<close> (instants are \<^verbatim>\<open>int64\<close> nanoseconds, compared
  as signed numbers).
\<close>

theorem zero_create_time:
  assumes "ah_CreateTime ba = 0"
    and "\<not> kvAdmissionQ_nil n"
    and "AdmitKVWork n env tenant ba = (h, r, tr)"
  shows "admit_infos tr \<noteq> []
     \<and> (\<forall>info \<in> set (admit_infos tr).
          info = admissionInfo n env tenant ba
          \<and> CreateTime info = (if BypassAdmission info then 0 else Now_UnixNano env)
          \<and> (\<forall>t0. sint t0 \<le> sint (Now_UnixNano env) \<and> \<not> BypassAdmission info
                \<longrightarrow> sint t0 \<le> sint (CreateTime info)))"
proof -
  have c: "CreateTime (admissionInfo n env tenant ba) =
          (if BypassAdmission (admissionInfo n env tenant ba) then 0 else Now_UnixNano env)"
    using assms(1) by (simp add: admissionInfo_def Let_def)
  have "info = admissionInfo n env tenant ba
          \<and> CreateTime info = (if BypassAdmission info then 0 else Now_UnixNano env)
          \<and> (\<forall>t0. sint t0 \<le> sint (Now_UnixNano env) \<and> \<not> BypassAdmission info
                \<longrightarrow> sint t0 \<le> sint (CreateTime info))"
    if "info \<in> set (admit_infos tr)" for info
    using admit_infos_AdmitKVWork [OF assms(3) that] c by simp
  with admit_infos_nonempty [OF assms(2) assms(3)] show ?thesis by blast
qed

text \<open>
  The write of the system tenant with create time zero reaches the store queue and
  the KV queue with the clock's reading, 1000, which is not earlier than the
  instant 900; declared with the source \<^verbatim>\<open>OTHER\<close> it is bypassed and reaches both
  queues with the create time zero.
\<close>

lemma ex_write_other_admitted:
  "AdmitKVWork ex_controller ex_subsystems 1 ex_write_other =
     (\<lparr>tenantID = 1, storeAdmissionQ = Some 7, storeWorkHandle = ex_store_handle,
       ElasticCPUWorkHandle = None, callAdmittedWorkDoneOnKVAdmissionQ = True\<rparr>,
      None,
      [StoreQ_Admit 7
         \<lparr>TenantID = 1, Priority = - 30, CreateTime = 0, BypassAdmission = True\<rparr>
         (Inr ex_store_handle),
       KVQ_Admit
         \<lparr>TenantID = 1, Priority = - 30, CreateTime = 0, BypassAdmission = True\<rparr>
         (Inr True)])"
  by (simp add: AdmitKVWork_defs ex_defs)

theorem zero_create_time_witness:
  "ah_CreateTime ex_write = 0 \<and> ah_CreateTime ex_write_other = 0
   \<and> \<not> kvAdmissionQ_nil ex_controller
   \<and> Now_UnixNano ex_subsystems = 1000
   \<and> sint (900 :: 64 word) \<le> sint (Now_UnixNano ex_subsystems)
   \<and> admit_infos (snd (snd (AdmitKVWork ex_controller ex_subsystems 1 ex_write)))
       = [\<lparr>TenantID = 1, Priority = - 30, CreateTime = 1000, BypassAdmission = False\<rparr>,
          \<lparr>TenantID = 1, Priority = - 30, CreateTime = 1000, BypassAdmission = False\<rparr>]
   \<and> list_all (\<lambda>info. sint (900 :: 64 word) \<le> sint (CreateTime info))
        (admit_infos (snd (snd (AdmitKVWork ex_controller ex_subsystems 1 ex_write))))
   \<and> admit_infos (snd (snd (AdmitKVWork ex_controller ex_subsystems 1 ex_write_other)))
       = [\<lparr>TenantID = 1, Priority = - 30, CreateTime = 0, BypassAdmission = True\<rparr>,
          \<lparr>TenantID = 1, Priority = - 30, CreateTime = 0, BypassAdmission = True\<rparr>]"
proof -
  have z: "ah_CreateTime ex_write = 0" "ah_CreateTime ex_write_other = 0"
    by (simp_all add: ex_defs)
  have q: "\<not> kvAdmissionQ_nil ex_controller"
    by (simp add: ex_defs)
  have now: "Now_UnixNano ex_subsystems = 1000"
    by (simp add: ex_defs)
  have i: "admit_infos (snd (snd (AdmitKVWork ex_controller ex_subsystems 1 ex_write)))
       = [\<lparr>TenantID = 1, Priority = - 30, CreateTime = 1000, BypassAdmission = False\<rparr>,
          \<lparr>TenantID = 1, Priority = - 30, CreateTime = 1000, BypassAdmission = False\<rparr>]"
    "admit_infos (snd (snd (AdmitKVWork ex_controller ex_subsystems 1 ex_write_other)))
       = [\<lparr>TenantID = 1, Priority = - 30, CreateTime = 0, BypassAdmission = True\<rparr>,
          \<lparr>TenantID = 1, Priority = - 30, CreateTime = 0, BypassAdmission = True\<rparr>]"
    by (simp_all add: ex_write_admitted ex_write_other_admitted admit_infos_def)
  from zero_create_time [OF z(1) q ex_write_admitted]
    zero_create_time [OF z(2) q ex_write_other_admitted] z q now i
  show ?thesis by simp
qed

subsection \<open>The store queue token\<close>

text \<open>
  C4, as stated, fails: a bypassed request is still admitted into the store queue.
  The write of the system tenant that declares the source \<^verbatim>\<open>OTHER\<close> is bypassed;
  the handle returned holds the store queue and its work handle, and
  \<open>AdmittedKVWorkDone\<close> calls the store queue's completion.
\<close>

theorem bypassed_write_counterexample:
  "BypassAdmission (admissionInfo ex_controller ex_subsystems 1 ex_write_other) = True
   \<and> storeAdmissionQ (fst (AdmitKVWork ex_controller ex_subsystems 1 ex_write_other)) = Some 7
   \<and> storeWorkHandle (fst (AdmitKVWork ex_controller ex_subsystems 1 ex_write_other))
       = ex_store_handle
   \<and> AdmittedKVWorkDone ex_subsystems
        (fst (AdmitKVWork ex_controller ex_subsystems 1 ex_write_other)) None
       = [ElasticQ_AdmittedWorkDone None, KVQ_AdmittedWorkDone 1,
          StoreQ_AdmittedWorkDone 7 ex_store_handle StoreWorkDoneInfo_zero]"
  apply (simp only: ex_write_other_admitted fst_conv snd_conv)
  apply (simp add: admissionInfo_def AdmittedKVWorkDone_def Let_def ex_defs)
  done

text \<open>
  C4, amended. When the store queue is absent (the controller has no subsystems,
  or the target store has no queue), or the request is not a write, or it is a
  single heartbeat-transaction request, the handle returned by \<open>AdmitKVWork\<close> holds
  no store queue token and \<open>AdmittedKVWorkDone\<close> on it makes no store completion
  call. Being bypassed does not exempt a write from the store queue.
\<close>

theorem no_store_token_without_store_admission:
  assumes "kvAdmissionQ_nil n \<or> storeGrantCoords n (Replica_StoreID ba) = None
     \<or> \<not> IsWrite ba \<or> IsSingleHeartbeatTxnRequest ba"
    and "AdmitKVWork n env tenant ba = (h, r, tr)"
  shows "storeAdmissionQ h = None
     \<and> store_done_infos (AdmittedKVWorkDone env' h writeBytes) = []"
proof (cases "kvAdmissionQ_nil n")
  case True
  with assms(2) show ?thesis
    by (auto simp: AdmitKVWork_def Handle_zero_def AdmittedKVWorkDone_def trace_defs)
next
  case False
  from admitStore_no_store [OF assms(1) False]
  have "storeAdmissionQ h = None"
    using assms(2) False
    by (auto simp: AdmitKVWork_def Let_def return_with_def Handle_zero_def
        split: if_splits sum.splits)
  then show ?thesis
    by (simp add: AdmittedKVWorkDone_def trace_defs)
qed

lemma ex_heartbeat_admitted:
  "AdmitKVWork ex_controller ex_subsystems 1 ex_heartbeat =
     (\<lparr>tenantID = 1, storeAdmissionQ = None, storeWorkHandle = StoreWorkHandle_zero,
       ElasticCPUWorkHandle = None, callAdmittedWorkDoneOnKVAdmissionQ = True\<rparr>,
      None,
      [KVQ_Admit
         \<lparr>TenantID = 1, Priority = - 30, CreateTime = 1000, BypassAdmission = False\<rparr>
         (Inr True)])"
  by (simp add: AdmitKVWork_defs ex_defs)

theorem no_store_token_without_store_admission_witness:
  "IsSingleHeartbeatTxnRequest ex_heartbeat
   \<and> storeAdmissionQ (fst (AdmitKVWork ex_controller ex_subsystems 1 ex_heartbeat)) = None
   \<and> store_done_infos
        (AdmittedKVWorkDone ex_subsystems
           (fst (AdmitKVWork ex_controller ex_subsystems 1 ex_heartbeat)) None) = []"
proof -
  have hb: "IsSingleHeartbeatTxnRequest ex_heartbeat"
    by (simp add: ex_defs)
  then have pre: "kvAdmissionQ_nil ex_controller
      \<or> storeGrantCoords ex_controller (Replica_StoreID ex_heartbeat) = None
      \<or> \<not> IsWrite ex_heartbeat \<or> IsSingleHeartbeatTxnRequest ex_heartbeat"
    by simp
  from no_store_token_without_store_admission [OF pre ex_heartbeat_admitted, of ex_subsystems None] hb
  show ?thesis by (simp add: ex_heartbeat_admitted)
qed

subsection \<open>One queue for the second admission\<close>

text \<open>
  C10. Whatever \<open>AdmitKVWork\<close> returns, the handle does not hold both an elastic
  CPU work handle and the KV queue's completion flag, and the call did not consult
  both the elastic CPU queue and the KV queue.
\<close>

theorem elastic_and_kv_exclusive:
  assumes "AdmitKVWork n env tenant ba = (h, r, tr)"
  shows "\<not> (ElasticCPUWorkHandle h \<noteq> None \<and> callAdmittedWorkDoneOnKVAdmissionQ h)
     \<and> \<not> (list_ex is_elastic_admit tr \<and> list_ex is_kv_admit tr)"
  using assms
  apply (simp add: AdmitKVWork_def Let_def split: if_splits sum.splits prod.splits)
   apply (simp add: Handle_zero_def)
  apply (auto dest!: admitStore_Inl admitStore_Inr simp: return_with_def Handle_zero_def
      split: if_splits sum.splits)
  done

theorem elastic_and_kv_exclusive_witness:
  "callAdmittedWorkDoneOnKVAdmissionQ (fst (AdmitKVWork ex_controller ex_subsystems 1 ex_write))
   \<and> ElasticCPUWorkHandle (fst (AdmitKVWork ex_controller ex_subsystems 1 ex_write)) = None
   \<and> list_ex is_kv_admit (snd (snd (AdmitKVWork ex_controller ex_subsystems 1 ex_write)))
   \<and> \<not> list_ex is_elastic_admit (snd (snd (AdmitKVWork ex_controller ex_subsystems 1 ex_write)))"
proof -
  have kv: "callAdmittedWorkDoneOnKVAdmissionQ
      (fst (AdmitKVWork ex_controller ex_subsystems 1 ex_write))"
    "list_ex is_kv_admit (snd (snd (AdmitKVWork ex_controller ex_subsystems 1 ex_write)))"
    by (simp_all add: ex_write_admitted)
  from elastic_and_kv_exclusive [OF ex_write_admitted] kv show ?thesis
    by (simp add: ex_write_admitted)
qed

subsection \<open>Pacer\<close>

text \<open>
  C8. \<open>Close\<close> on a \<^verbatim>\<open>nil\<close> pacer, on a pacer that holds no handle, and on the
  pacer \<open>AdmitRangefeedRequest\<close> has just built makes no call and leaves the pacer
  as it is. A second \<open>Close\<close> makes no call and changes nothing, so two \<open>Close\<close>
  calls make at most one completion call between them. \<open>Pace\<close> on a \<^verbatim>\<open>nil\<close>
  pacer makes no call and returns no error. \<open>Close\<close> has no error result and no
  failing branch.
\<close>

theorem Close_idempotent:
  "Close None = (None, [])
   \<and> Close (Some (p\<lparr>cur := None\<rparr>)) = (Some (p\<lparr>cur := None\<rparr>), [])
   \<and> Close (AdmitRangefeedRequest n tenant request) = (AdmitRangefeedRequest n tenant request, [])
   \<and> Close (fst (Close q)) = (fst (Close q), [])
   \<and> length (completion_calls (snd (Close q) @ snd (Close (fst (Close q))))) \<le> 1
   \<and> Pace env None = (None, None, [])"
  by (auto simp: Close_def Pace_def AdmitRangefeedRequest_def completion_calls_def
      split: option.splits)

text \<open>A pacer that holds handle 5 releases it at the first \<open>Close\<close> and only there.\<close>

theorem Close_idempotent_witness:
  "Close (Some ex_pacer) = (Some (ex_pacer\<lparr>cur := None\<rparr>), [ElasticQ_AdmittedWorkDone (Some 5)])
   \<and> Close (fst (Close (Some ex_pacer))) = (Some (ex_pacer\<lparr>cur := None\<rparr>), [])
   \<and> length (completion_calls
        (snd (Close (Some ex_pacer)) @ snd (Close (fst (Close (Some ex_pacer)))))) = 1"
proof -
  have c: "Close (Some ex_pacer)
      = (Some (ex_pacer\<lparr>cur := None\<rparr>), [ElasticQ_AdmittedWorkDone (Some 5)])"
    by (simp add: Close_def ex_pacer_def)
  from Close_idempotent [of ex_pacer ex_controller 1 "\<lparr>rf_Priority = 0, rf_CreateTime = 0\<rparr>"
      "Some ex_pacer" ex_subsystems] c
  show ?thesis by (simp add: completion_calls_def)
qed

subsection \<open>The weight redistribution loop\<close>

lemma provider_calls_append [simp]:
  "provider_calls (xs @ ys) = provider_calls xs + provider_calls ys"
  by (simp add: provider_calls_def)

lemma provider_calls_Nil [simp]: "provider_calls [] = 0"
  by (simp add: provider_calls_def)

lemma provider_calls_Cons [simp]:
  "provider_calls (e # es) = (if e = Provider_GetTenantWeights then 1 else 0) + provider_calls es"
  by (simp add: provider_calls_def)

lemma provider_calls_setStoreWeights [simp]:
  "provider_calls (setStoreWeights n d ws) = 0"
  by (induction ws) (auto split: option.splits)

text \<open>
  One tick. With \<^verbatim>\<open>allWeightsDisabled\<close> set and both settings off the tick is
  skipped; otherwise the provider is polled once, first of all calls, and
  \<^verbatim>\<open>allWeightsDisabled\<close> becomes whether both settings are off.
\<close>

lemma tickBody_skip:
  "both_disabled t \<Longrightarrow> tickBody n True t = (True, [])"
  by (simp add: tickBody_def both_disabled_def)

lemma tickBody_poll:
  "\<not> (allWeightsDisabled \<and> both_disabled t) \<Longrightarrow>
     fst (tickBody n allWeightsDisabled t) = both_disabled t
     \<and> provider_calls (snd (tickBody n allWeightsDisabled t)) = 1
     \<and> (\<exists>tr. snd (tickBody n allWeightsDisabled t) = Provider_GetTenantWeights # tr)"
  by (auto simp: tickBody_def both_disabled_def Let_def)

lemma tickBody_after_disabled:
  "both_disabled t \<Longrightarrow> fst (tickBody n allWeightsDisabled t) = True"
  by (auto simp: tickBody_def both_disabled_def Let_def)

lemma weightsLoop_tick:
  "weightsLoop n a (Ticker_C t # rest) =
     (fst (weightsLoop n (fst (tickBody n a t)) rest),
      snd (tickBody n a t) @ snd (weightsLoop n (fst (tickBody n a t)) rest))"
  by (simp add: Let_def split: prod.splits)

lemma weightsLoop_ticks_append:
  "weightsLoop n a (map Ticker_C ts @ rest) =
     (fst (weightsLoop n (fst (weightsLoop n a (map Ticker_C ts))) rest),
      snd (weightsLoop n a (map Ticker_C ts))
        @ snd (weightsLoop n (fst (weightsLoop n a (map Ticker_C ts))) rest))"
  by (induction ts arbitrary: a) (simp_all add: weightsLoop_tick del: weightsLoop.simps(3))

lemma weightsLoop_all_disabled:
  "\<forall>t \<in> set ts. both_disabled t \<Longrightarrow> weightsLoop n True (map Ticker_C ts) = (True, [])"
  by (induction ts) (simp_all add: weightsLoop_tick tickBody_skip del: weightsLoop.simps(3))

lemma weightsLoop_reaches_disabled:
  "both_disabled t0 \<Longrightarrow> fst (weightsLoop n a (map Ticker_C (pre @ [t0]))) = True"
  by (induction pre arbitrary: a)
    (simp_all add: weightsLoop_tick tickBody_after_disabled del: weightsLoop.simps(3))

text \<open>
  C6. Let the loop have run through any ticks \<open>pre\<close> and then a tick \<open>t0\<close> at which
  both weighting settings are off. Further ticks \<open>ts\<close> at which both are still off
  add no call to the provider; the first tick \<open>t1\<close> after them at which one of the
  settings is on adds exactly one.
\<close>

theorem weight_loop_short_circuit:
  assumes "both_disabled t0" and "\<forall>t \<in> set ts. both_disabled t" and "\<not> both_disabled t1"
  shows "provider_calls (SetTenantWeightProvider n (map Ticker_C (pre @ [t0] @ ts)))
           = provider_calls (SetTenantWeightProvider n (map Ticker_C (pre @ [t0])))
     \<and> provider_calls (SetTenantWeightProvider n (map Ticker_C (pre @ [t0] @ ts @ [t1])))
           = provider_calls (SetTenantWeightProvider n (map Ticker_C (pre @ [t0]))) + 1"
proof -
  have p: "fst (weightsLoop n False (map Ticker_C (pre @ [t0]))) = True"
    by (rule weightsLoop_reaches_disabled [OF assms(1)])
  have q: "weightsLoop n True (map Ticker_C ts) = (True, [])"
    by (rule weightsLoop_all_disabled [OF assms(2)])
  have r: "provider_calls (snd (tickBody n True t1)) = 1"
    using tickBody_poll [of True t1 n] assms(3) by simp
  have a: "snd (weightsLoop n False (map Ticker_C (pre @ [t0] @ ts)))
             = snd (weightsLoop n False (map Ticker_C (pre @ [t0])))"
    using weightsLoop_ticks_append [of n False "pre @ [t0]" "map Ticker_C ts"] p q
    by simp
  have b: "snd (weightsLoop n False (map Ticker_C (pre @ [t0] @ ts @ [t1])))
             = snd (weightsLoop n False (map Ticker_C (pre @ [t0]))) @ snd (tickBody n True t1)"
    using weightsLoop_ticks_append [of n False "pre @ [t0]" "map Ticker_C (ts @ [t1])"]
      weightsLoop_ticks_append [of n True ts "[Ticker_C t1]"] p q
    by (simp add: weightsLoop_tick del: weightsLoop.simps(3))
  show ?thesis
    using a b r by (simp add: SetTenantWeightProvider_def)
qed

text \<open>
  A run of five ticks: on, off, off, off, on. The provider is polled at the first
  two ticks, not at the third and fourth, and again at the fifth.
\<close>

lemma ex_ticks_on_off:
  "provider_calls (SetTenantWeightProvider ex_controller
      (map Ticker_C ([ex_tick_on] @ [ex_tick_off]))) = 2"
  by (simp add: SetTenantWeightProvider_def tickBody_def Let_def ex_tick_on_def ex_tick_off_def
      ex_weights_def ex_controller_def)

theorem weight_loop_short_circuit_witness:
  "both_disabled ex_tick_off \<and> \<not> both_disabled ex_tick_on
   \<and> provider_calls (SetTenantWeightProvider ex_controller
        (map Ticker_C ([ex_tick_on] @ [ex_tick_off] @ [ex_tick_off, ex_tick_off]))) = 2
   \<and> provider_calls (SetTenantWeightProvider ex_controller
        (map Ticker_C ([ex_tick_on] @ [ex_tick_off] @ [ex_tick_off, ex_tick_off] @ [ex_tick_on])))
       = 3"
proof -
  have off: "both_disabled ex_tick_off"
    by (simp add: both_disabled_def ex_tick_off_def)
  have offs: "\<forall>t \<in> set [ex_tick_off, ex_tick_off]. both_disabled t"
    using off by simp
  have on: "\<not> both_disabled ex_tick_on"
    by (simp add: both_disabled_def ex_tick_on_def ex_tick_off_def)
  from weight_loop_short_circuit [OF off offs on, of ex_controller "[ex_tick_on]"]
    ex_ticks_on_off off on
  show ?thesis by simp
qed

text \<open>
  C9. The first tick after \<open>SetTenantWeightProvider\<close> starts the loop polls the
  provider exactly once, as its first call, whatever the two settings are. When
  both settings are off at the first tick and at every tick that follows, that
  poll is the only one: the skipping starts with the second such tick.
\<close>

theorem first_tick_polls:
  "provider_calls (SetTenantWeightProvider n [Ticker_C t]) = 1
   \<and> (\<exists>tr. SetTenantWeightProvider n (Ticker_C t # rest) = Provider_GetTenantWeights # tr)
   \<and> (both_disabled t \<and> (\<forall>t' \<in> set ts. both_disabled t') \<longrightarrow>
        provider_calls (SetTenantWeightProvider n (map Ticker_C (t # ts))) = 1)"
proof -
  have 1: "provider_calls (snd (tickBody n False t)) = 1"
    and 2: "\<exists>tr. snd (tickBody n False t) = Provider_GetTenantWeights # tr"
    using tickBody_poll [of False t n] by simp_all
  have a: "provider_calls (SetTenantWeightProvider n [Ticker_C t]) = 1"
    using 1 by (simp add: SetTenantWeightProvider_def weightsLoop_tick del: weightsLoop.simps(3))
  have b: "\<exists>tr. SetTenantWeightProvider n (Ticker_C t # rest) = Provider_GetTenantWeights # tr"
    using 2
    by (auto simp: SetTenantWeightProvider_def weightsLoop_tick simp del: weightsLoop.simps(3))
  have c: "provider_calls (SetTenantWeightProvider n (map Ticker_C (t # ts))) = 1"
    if "both_disabled t" "\<forall>t' \<in> set ts. both_disabled t'"
    using 1 tickBody_after_disabled [OF that(1), of n False]
      weightsLoop_all_disabled [OF that(2), of n]
    by (simp add: SetTenantWeightProvider_def weightsLoop_tick del: weightsLoop.simps(3))
  from a b c show ?thesis by blast
qed

text \<open>
  With both settings off from the start, the first tick polls the provider and
  clears every weight; the second tick makes no call.
\<close>

theorem first_tick_polls_witness:
  "both_disabled ex_tick_off
   \<and> SetTenantWeightProvider ex_controller [Ticker_C ex_tick_off]
       = [Provider_GetTenantWeights, KVQ_SetTenantWeights None, ElasticQ_SetTenantWeights None,
          StoreQ_SetTenantWeights 7 None]
   \<and> provider_calls (SetTenantWeightProvider ex_controller [Ticker_C ex_tick_off]) = 1
   \<and> provider_calls (SetTenantWeightProvider ex_controller
        (map Ticker_C (ex_tick_off # [ex_tick_off]))) = 1"
proof -
  have off: "both_disabled ex_tick_off"
    by (simp add: both_disabled_def ex_tick_off_def)
  have run: "SetTenantWeightProvider ex_controller [Ticker_C ex_tick_off]
       = [Provider_GetTenantWeights, KVQ_SetTenantWeights None, ElasticQ_SetTenantWeights None,
          StoreQ_SetTenantWeights 7 None]"
    by (simp add: SetTenantWeightProvider_def tickBody_def Let_def ex_tick_off_def
        ex_weights_def ex_controller_def)
  from first_tick_polls [of ex_controller ex_tick_off "[]" "[ex_tick_off]"] off run
  show ?thesis by simp
qed

end
